theory Spec2Isabelle
  imports Complex_Main
begin

section \<open>ERA5 monthly aggregates: AOI climate processor\<close>

text \<open>
  A shallow embedding of \<^verbatim>\<open>advanced_era5_analyses.js\<close>. The script is client-side
  JavaScript that builds requests for the Earth Engine platform. The JavaScript of the
  script (string building, strict comparison, the loops over months and years, the order
  of the platform calls) is translated function by function. The platform calls
  themselves (\<^verbatim>\<open>ee.*\<close>) are not code of this repository; each is given a definition
  named \<open>ee_\<close>..., written from the interface the specification states for the platform.
\<close>

subsection \<open>JavaScript values and strings\<close>

text \<open>
  The primitive values other than symbols: their conversion to a string cannot fail.
  Numbers are the integers, which is what years and months are. Strings are sequences of
  bytes (UTF-8).
\<close>

datatype jsval = JUndefined | JNull | JBool bool | JNum int | JStr string

text \<open>
  The values a variable of the script can hold: a primitive, a symbol (given by its
  description), an array, or another object. An object that is not an array is given by
  the primitive that its conversion to a primitive (its \<^verbatim>\<open>valueOf\<close> and
  \<^verbatim>\<open>toString\<close> methods) yields: \<^verbatim>\<open>new String('x')\<close> is
  \<open>JObject (Some (JStr ''x''))\<close> and \<^verbatim>\<open>{}\<close> is
  \<open>JObject (Some (JStr ''[object Object]''))\<close>. It is \<open>JObject None\<close> when the
  conversion throws (an object without these methods, or whose methods throw or return a
  symbol).
\<close>

datatype js_value = Prim jsval | JSymbol string | JArray "js_value list" | JObject "jsval option"

text \<open>
  The failures of a run, as values. \<open>TypeError\<close> is what JavaScript throws when a
  value that cannot be converted to a string is concatenated with one.
  \<open>InvalidAOIError\<close> is the error the specification names for AOI resolution.
\<close>

datatype error = InvalidAOIError | TypeError

definition digit_char :: "nat \<Rightarrow> char" where
  "digit_char d = ''0123456789'' ! d"

text \<open>Decimal digits of a natural number, most significant first.\<close>

fun nat_to_str :: "nat \<Rightarrow> string" where
  "nat_to_str n =
     (if n < 10 then [digit_char n] else nat_to_str (n div 10) @ [digit_char (n mod 10)])"

declare nat_to_str.simps [simp del]

text \<open>
  Number to string, as JavaScript prints an integer (of magnitude below \<open>10^21\<close>,
  where the plain decimal form is used).
\<close>

definition int_to_str :: "int \<Rightarrow> string" where
  "int_to_str i = (if i < 0 then CHR ''-'' # nat_to_str (nat (- i)) else nat_to_str (nat i))"

text \<open>The conversion applied by \<^verbatim>\<open>'' + v\<close>.\<close>

fun ToString :: "jsval \<Rightarrow> string" where
  "ToString JUndefined = ''undefined''"
| "ToString JNull = ''null''"
| "ToString (JBool b) = (if b then ''true'' else ''false'')"
| "ToString (JNum n) = int_to_str n"
| "ToString (JStr s) = s"

text \<open>
  \<^verbatim>\<open>Array.prototype.join('')\<close>: each element is converted to a string, \<^verbatim>\<open>undefined\<close>
  and \<^verbatim>\<open>null\<close> to the empty string, and the pieces are concatenated.
\<close>

fun join_piece :: "jsval \<Rightarrow> string" where
  "join_piece JUndefined = []"
| "join_piece JNull = []"
| "join_piece v = ToString v"

definition js_join :: "jsval list \<Rightarrow> string" where
  "js_join xs = concat (map join_piece xs)"

text \<open>
  The conversion applied by \<^verbatim>\<open>'' + v\<close> to any value. A symbol cannot be converted.
  An array is converted by \<^verbatim>\<open>Array.prototype.toString\<close>: its elements are converted,
  \<^verbatim>\<open>undefined\<close> and \<^verbatim>\<open>null\<close> to the empty string, and joined with commas; an
  element that cannot be converted makes the whole conversion fail.
\<close>

fun ToString_value :: "js_value \<Rightarrow> error + string"
  and join_comma :: "js_value list \<Rightarrow> error + string" where
  "ToString_value (Prim p) = Inr (ToString p)"
| "ToString_value (JSymbol d) = Inl TypeError"
| "ToString_value (JObject r) = (case r of None \<Rightarrow> Inl TypeError | Some p \<Rightarrow> Inr (ToString p))"
| "ToString_value (JArray xs) = join_comma xs"
| "join_comma [] = Inr []"
| "join_comma (x # xs) =
     (case (if x = Prim JUndefined \<or> x = Prim JNull then Inr [] else ToString_value x) of
        Inl e \<Rightarrow> Inl e
      | Inr s \<Rightarrow>
          (case join_comma xs of
             Inl e \<Rightarrow> Inl e
           | Inr r \<Rightarrow> Inr (if xs = [] then s else s @ '','' @ r)))"

text \<open>
  \<^verbatim>\<open>String.prototype.toLowerCase\<close> on the ASCII letters; every other byte is kept.
  (Outside ASCII, JavaScript maps letters to other non-ASCII letters, with the Kelvin
  sign going to \<open>k\<close>.)
\<close>

definition lower_char :: "char \<Rightarrow> char" where
  "lower_char c =
     (case map_of (zip ''ABCDEFGHIJKLMNOPQRSTUVWXYZ'' ''abcdefghijklmnopqrstuvwxyz'') c of
        None \<Rightarrow> c
      | Some d \<Rightarrow> d)"

definition toLowerCase :: "string \<Rightarrow> string" where
  "toLowerCase s = map lower_char s"

subsection \<open>Utilities of the script\<close>

text \<open>\<^verbatim>\<open>function pad2(m) { return (m < 10 ? '0' : '') + m; }\<close>\<close>

definition pad2 :: "int \<Rightarrow> string" where
  "pad2 m = (if m < 10 then ''0'' else '''') @ ToString (JNum m)"

text \<open>
  \<^verbatim>\<open>getClimMetric\<close> reads the global \<^verbatim>\<open>AVERAGING_METRIC\<close>, which is its argument here
  and can be any value. The concatenation \<^verbatim>\<open>'' + AVERAGING_METRIC\<close> throws when the
  value cannot be converted to a string, and the function returns nothing then.
\<close>

definition getClimMetric :: "js_value \<Rightarrow> error + string" where
  "getClimMetric AVERAGING_METRIC =
     (case ToString_value AVERAGING_METRIC of
        Inl e \<Rightarrow> Inl e
      | Inr s \<Rightarrow>
          (let metric = toLowerCase ('''' @ s)
           in Inr (if metric = ''median'' then ''median'' else ''mean'')))"

subsection \<open>Platform data: images, collections, geometries\<close>

type_synonym pixel = nat

text \<open>A band is a field of samples; \<open>None\<close> is a masked sample (no data).\<close>

type_synonym raster = "pixel \<Rightarrow> real option"

text \<open>A geometry is the list of the pixels it covers.\<close>

type_synonym geometry = "pixel list"

text \<open>
  Property values of platform objects. A timestamp is a month start, given by its
  calendar year and calendar month.
\<close>

datatype eeval = EDate int int | ENum real | EStr string

record ee_image =
  bands :: "(string \<times> raster) list"
  props :: "string \<rightharpoonup> eeval"

type_synonym image_collection = "ee_image list"

text \<open>The sample of a named band at a pixel, absent when the band or the sample is.\<close>

definition band_value :: "ee_image \<Rightarrow> string \<Rightarrow> pixel \<Rightarrow> real option" where
  "band_value img b p = (case map_of (bands img) b of None \<Rightarrow> None | Some r \<Rightarrow> r p)"

subsection \<open>Platform operations\<close>

text \<open>
  Modelled from the spec: the asset store of the platform, \<open>resolve(assetId) -> {geometries}\<close>;
  the store itself is a parameter. \<^verbatim>\<open>ee.FeatureCollection(assetId)\<close> is the list of the
  geometries of the asset's features (a single feature or geometry is wrapped).
\<close>

type_synonym asset_store = "string \<Rightarrow> geometry list"

definition ee_FeatureCollection :: "asset_store \<Rightarrow> string \<Rightarrow> geometry list" where
  "ee_FeatureCollection store assetId = store assetId"

text \<open>
  Modelled from the spec: \<^verbatim>\<open>FeatureCollection.geometry()\<close> merges the geometries of all
  features into one.
\<close>

definition ee_fc_geometry :: "geometry list \<Rightarrow> geometry" where
  "ee_fc_geometry fc = remdups (concat fc)"

text \<open>
  Modelled from the spec: \<^verbatim>\<open>ee.Filter.calendarRange(start, end, field)\<close> on the
  property \<^verbatim>\<open>system:time_start\<close>, for the fields \<^verbatim>\<open>year\<close> and \<^verbatim>\<open>month\<close>. An image
  without a timestamp matches no filter.
\<close>

definition ee_Filter_calendarRange :: "int \<Rightarrow> int \<Rightarrow> string \<Rightarrow> ee_image \<Rightarrow> bool" where
  "ee_Filter_calendarRange lo hi field img =
     (case props img ''system:time_start'' of
        Some (EDate y m) \<Rightarrow>
          (if field = ''year'' then lo \<le> y \<and> y \<le> hi
           else if field = ''month'' then lo \<le> m \<and> m \<le> hi
           else False)
      | _ \<Rightarrow> False)"

text \<open>Modelled from the spec: \<^verbatim>\<open>ee.Filter.eq(name, value)\<close> on a numeric property.\<close>

definition ee_Filter_eq :: "string \<Rightarrow> int \<Rightarrow> ee_image \<Rightarrow> bool" where
  "ee_Filter_eq name v img = (props img name = Some (ENum (real_of_int v)))"

text \<open>Modelled from the spec: \<^verbatim>\<open>collection.first()\<close>, null on the empty collection.\<close>

definition ee_first :: "image_collection \<Rightarrow> ee_image option" where
  "ee_first ic = (case ic of [] \<Rightarrow> None | img # _ \<Rightarrow> Some img)"

text \<open>
  Modelled from the spec: \<^verbatim>\<open>image.select(names)\<close> keeps the named bands, in the order
  asked for. A name that matches no band selects nothing here. The failure that the
  specification names for a band that a source image lacks (\<open>MissingBandError\<close>) is not
  modelled: for an image that lacks the band, the properties below describe the samples
  read as absent, not the outcome of the run.
\<close>

definition ee_select :: "string list \<Rightarrow> ee_image \<Rightarrow> ee_image" where
  "ee_select names img =
     img\<lparr>bands := List.map_filter (\<lambda>n. map_option (Pair n) (map_of (bands img) n)) names\<rparr>"

text \<open>Modelled from the spec: \<^verbatim>\<open>image.rename(names)\<close> renames the bands by position.\<close>

definition ee_rename :: "string list \<Rightarrow> ee_image \<Rightarrow> ee_image" where
  "ee_rename names img = img\<lparr>bands := zip names (map snd (bands img))\<rparr>"

text \<open>Modelled from the spec: \<^verbatim>\<open>image.set(name, value)\<close>.\<close>

definition ee_set :: "string \<Rightarrow> eeval \<Rightarrow> ee_image \<Rightarrow> ee_image" where
  "ee_set name v img = img\<lparr>props := (props img)(name \<mapsto> v)\<rparr>"

text \<open>
  Modelled from the spec: \<^verbatim>\<open>image.multiply(c)\<close> and \<^verbatim>\<open>image.subtract(c)\<close> with a
  constant, sample by sample on every band; masked samples stay masked. Samples are real
  numbers: rounding of the platform's floating point is not modelled.
\<close>

definition ee_multiply :: "real \<Rightarrow> ee_image \<Rightarrow> ee_image" where
  "ee_multiply c img =
     img\<lparr>bands := map (\<lambda>(n, r). (n, \<lambda>p. map_option (\<lambda>v. v * c) (r p))) (bands img)\<rparr>"

definition ee_subtract :: "real \<Rightarrow> ee_image \<Rightarrow> ee_image" where
  "ee_subtract c img =
     img\<lparr>bands := map (\<lambda>(n, r). (n, \<lambda>p. map_option (\<lambda>v. v - c) (r p))) (bands img)\<rparr>"

text \<open>
  Modelled from the spec: \<^verbatim>\<open>ee.Image.cat(images)\<close> is a new image with all bands of
  all the images, in order, and no property of its own.
\<close>

definition ee_Image_cat :: "ee_image list \<Rightarrow> ee_image" where
  "ee_Image_cat imgs = \<lparr>bands = concat (map bands imgs), props = Map.empty\<rparr>"

text \<open>
  Modelled from the spec: \<^verbatim>\<open>dest.copyProperties(source, names)\<close> copies the named
  properties that the source has.
\<close>

definition ee_copyProperties :: "ee_image \<Rightarrow> string list \<Rightarrow> ee_image \<Rightarrow> ee_image" where
  "ee_copyProperties source names dest =
     dest\<lparr>props := (\<lambda>k. if k \<in> set names
                         then (case props source k of None \<Rightarrow> props dest k | Some v \<Rightarrow> Some v)
                         else props dest k)\<rparr>"

text \<open>Modelled from the spec: \<^verbatim>\<open>image.clip(geometry)\<close> masks the samples outside.\<close>

definition ee_clip :: "geometry \<Rightarrow> ee_image \<Rightarrow> ee_image" where
  "ee_clip g img =
     img\<lparr>bands := map (\<lambda>(n, r). (n, \<lambda>p. if p \<in> set g then r p else None)) (bands img)\<rparr>"

text \<open>
  Modelled from the spec: \<open>reduce(method)\<close> of a collection to one image, pixel-wise over
  the unmasked samples of each band; a pixel with no sample in any image is masked. The
  bands of the result are the band names that occur in the collection, in order of first
  occurrence, so the reduction of the empty collection is an image without bands.
\<close>

definition ee_reduce :: "(real list \<Rightarrow> real) \<Rightarrow> image_collection \<Rightarrow> ee_image" where
  "ee_reduce f ic =
     \<lparr>bands = map (\<lambda>n. (n, \<lambda>p. (let vs = List.map_filter (\<lambda>img. band_value img n p) ic
                               in if vs = [] then None else Some (f vs))))
                  (remdups (concat (map (\<lambda>img. map fst (bands img)) ic))),
      props = Map.empty\<rparr>"

definition mean_list :: "real list \<Rightarrow> real" where
  "mean_list vs = sum_list vs / real (length vs)"

definition median_list :: "real list \<Rightarrow> real" where
  "median_list vs =
     (let s = sort vs; n = length s
      in if odd n then s ! (n div 2) else (s ! (n div 2 - 1) + s ! (n div 2)) / 2)"

definition ee_sum :: "image_collection \<Rightarrow> ee_image" where
  "ee_sum ic = ee_reduce sum_list ic"

definition ee_mean :: "image_collection \<Rightarrow> ee_image" where
  "ee_mean ic = ee_reduce mean_list ic"

definition ee_median :: "image_collection \<Rightarrow> ee_image" where
  "ee_median ic = ee_reduce median_list ic"

text \<open>
  Modelled from the spec: the spatial reduction primitive
  \<open>arealReduce(image, geometry, statistic=mean, scale, bestEffort=true, maxPixels)\<close>, which
  returns a number or null for each band: the mean of the unmasked samples inside the
  geometry, null when there is none. The result is the dictionary of the bands that have
  a value. Resampling to \<open>scale\<close> and the pixel cap are internals of the platform and
  are not modelled.
\<close>

datatype ee_reducer = Reducer_mean

record reduceRegion_args =
  rr_reducer :: ee_reducer
  rr_geometry :: geometry
  rr_scale :: real
  rr_bestEffort :: bool
  rr_maxPixels :: real

definition areal_mean :: "raster \<Rightarrow> geometry \<Rightarrow> real option" where
  "areal_mean r g =
     (let vs = List.map_filter r g in if vs = [] then None else Some (mean_list vs))"

definition ee_reduceRegion :: "reduceRegion_args \<Rightarrow> ee_image \<Rightarrow> (string \<rightharpoonup> real)" where
  "ee_reduceRegion args img =
     (\<lambda>b. case map_of (bands img) b of None \<Rightarrow> None | Some r \<Rightarrow> areal_mean r (rr_geometry args))"

subsection \<open>The script\<close>

text \<open>The section USER PARAMETERS.\<close>

record params =
  AOI_ASSET_ID :: string
  START_YEAR :: int
  END_YEAR :: int
  AVERAGING_METRIC :: js_value
  DRIVE_FOLDER :: string
  nativeScale :: real
  MAP_ZOOM :: nat

text \<open>
  The script has no statement that raises \<open>InvalidAOIError\<close>: \<^verbatim>\<open>loadAOIGeometry\<close>
  has the single path that returns \<^verbatim>\<open>fc.geometry()\<close>.
\<close>

definition loadAOIGeometry :: "asset_store \<Rightarrow> string \<Rightarrow> error + geometry" where
  "loadAOIGeometry store assetId =
     (let fc = ee_FeatureCollection store assetId in Inr (ee_fc_geometry fc))"

text \<open>
  The top-level variables that the functions of the script read: the user parameters,
  \<^verbatim>\<open>var AOI = loadAOIGeometry(AOI_ASSET_ID)\<close> and \<^verbatim>\<open>var metric = getClimMetric()\<close>.
\<close>

record globals =
  user :: params
  var_AOI :: geometry
  var_metric :: string

definition script_globals :: "asset_store \<Rightarrow> params \<Rightarrow> error + globals" where
  "script_globals store P =
     (case loadAOIGeometry store (AOI_ASSET_ID P) of
        Inl e \<Rightarrow> Inl e
      | Inr g \<Rightarrow>
          (case getClimMetric (AVERAGING_METRIC P) of
             Inl e \<Rightarrow> Inl e
           | Inr m \<Rightarrow> Inr \<lparr>user = P, var_AOI = g, var_metric = m\<rparr>))"

text \<open>\<^verbatim>\<open>monthlyClimatology(ic, band, metric)\<close>: the map over \<^verbatim>\<open>ee.List.sequence(1, 12)\<close>.\<close>

definition monthlyClimatology :: "image_collection \<Rightarrow> string \<Rightarrow> string \<Rightarrow> image_collection" where
  "monthlyClimatology ic band metric =
     (let months = [1..12];
          imgs = map (\<lambda>m.
            let mcol = map (ee_select [band]) (filter (ee_Filter_calendarRange m m ''month'') ic);
                composite = (if metric = ''median'' then ee_median mcol else ee_mean mcol);
                img = ee_set ''metric'' (EStr metric)
                        (ee_set ''band'' (EStr band)
                          (ee_set ''month'' (ENum (real_of_int m))
                            (ee_rename [band] composite)))
            in img) months
      in imgs)"

text \<open>The features \<^verbatim>\<open>ee.Feature(null, {'year': y, 'value': val})\<close>.\<close>

record annual_feature =
  year :: int
  "value" :: "real option"

text \<open>
  \<^verbatim>\<open>annualSeries(ic, band, method, region, scale)\<close>: the map over
  \<^verbatim>\<open>ee.List.sequence(START_YEAR, END_YEAR)\<close>. \<^verbatim>\<open>method === 'sum'\<close> is decided by
  JavaScript before the request is built.
\<close>

definition annualSeries ::
  "globals \<Rightarrow> image_collection \<Rightarrow> string \<Rightarrow> string \<Rightarrow> geometry \<Rightarrow> real \<Rightarrow> annual_feature list" where
  "annualSeries G ic band method region scale =
     (let years = [START_YEAR (user G) .. END_YEAR (user G)];
          feats = map (\<lambda>y.
            let ycol = map (ee_select [band]) (filter (ee_Filter_calendarRange y y ''year'') ic);
                yimg = ee_rename [band] (if method = ''sum'' then ee_sum ycol else ee_mean ycol);
                val = ee_reduceRegion
                        \<lparr>rr_reducer = Reducer_mean, rr_geometry = region, rr_scale = scale,
                         rr_bestEffort = True, rr_maxPixels = 10000000000000\<rparr> yimg band
            in \<lparr>year = y, value = val\<rparr>) years
      in feats)"

text \<open>The callback of \<^verbatim>\<open>ERA5.map(...)\<close> and the converted collection \<^verbatim>\<open>ERA5x\<close>.\<close>

definition ERA5x_image :: "ee_image \<Rightarrow> ee_image" where
  "ERA5x_image img =
     (let tp_mm = ee_rename [''tp_mm''] (ee_multiply 1000 (ee_select [''total_precipitation''] img));
          tmean = ee_rename [''tmean_C'']
                    (ee_subtract 273.15 (ee_select [''mean_2m_air_temperature''] img));
          tmin = ee_rename [''tmin_C'']
                    (ee_subtract 273.15 (ee_select [''minimum_2m_air_temperature''] img));
          tmax = ee_rename [''tmax_C'']
                    (ee_subtract 273.15 (ee_select [''maximum_2m_air_temperature''] img));
          u10 = ee_rename [''u10''] (ee_select [''u_component_of_wind_10m''] img);
          v10 = ee_rename [''v10''] (ee_select [''v_component_of_wind_10m''] img)
      in ee_copyProperties img [''system:time_start'']
           (ee_Image_cat [tp_mm, tmean, tmin, tmax, u10, v10]))"

definition ERA5x :: "image_collection \<Rightarrow> image_collection" where
  "ERA5x ERA5 = map ERA5x_image ERA5"

text \<open>The argument of \<^verbatim>\<open>Export.image.toDrive\<close>.\<close>

record export_task =
  task_image :: "ee_image option"
  description :: string
  folder :: string
  fileNamePrefix :: string
  task_region :: geometry
  task_scale :: real
  task_maxPixels :: real

text \<open>The body of the loop of \<^verbatim>\<open>exportMonthlyRasters\<close> for the month \<open>m\<close>.\<close>

definition export_month :: "globals \<Rightarrow> image_collection \<Rightarrow> string \<Rightarrow> string \<Rightarrow> int \<Rightarrow> export_task" where
  "export_month G monthlyIC band varLabel m =
     (let img = map_option (\<lambda>i. ee_clip (var_AOI G) (ee_select [band] i))
                  (ee_first (filter (ee_Filter_eq ''month'' m) monthlyIC));
          fileBase = js_join
            [JStr ''ERA5_'', JStr varLabel, JStr ''_'', JStr (var_metric G),
             JStr ''_'', JNum (START_YEAR (user G)), JStr ''-'', JNum (END_YEAR (user G)),
             JStr ''_M'', JStr (pad2 m)]
      in \<lparr>task_image = img, description = fileBase, folder = DRIVE_FOLDER (user G),
          fileNamePrefix = fileBase, task_region = var_AOI G,
          task_scale = nativeScale (user G), task_maxPixels = 10000000000000\<rparr>)"

text \<open>
  \<^verbatim>\<open>for (var m = 1; m <= 12; m++)\<close>, from the value \<open>m\<close> of the loop variable on; the
  result is the list of the export tasks created, in order of creation.
\<close>

function export_loop ::
  "globals \<Rightarrow> image_collection \<Rightarrow> string \<Rightarrow> string \<Rightarrow> int \<Rightarrow> export_task list" where
  "export_loop G monthlyIC band varLabel m =
     (if m \<le> 12
      then export_month G monthlyIC band varLabel m # export_loop G monthlyIC band varLabel (m + 1)
      else [])"
  by pat_completeness auto
termination
  by (relation "measure (\<lambda>(G, monthlyIC, band, varLabel, m). nat (13 - m))") auto

declare export_loop.simps [simp del]

definition exportMonthlyRasters ::
  "globals \<Rightarrow> image_collection \<Rightarrow> string \<Rightarrow> string \<Rightarrow> export_task list" where
  "exportMonthlyRasters G monthlyIC band varLabel = export_loop G monthlyIC band varLabel 1"

text \<open>
  The chart that \<^verbatim>\<open>drawAnnualLineChart\<close> asks the chart library for: the features, the
  properties plotted, the chart type and the options, among them the trend line of
  series 0.
\<close>

record trendline =
  tl_type :: string
  tl_color :: string
  tl_lineWidth :: nat
  showR2 :: bool
  visibleInLegend :: bool

record chart_options =
  opt_title :: string
  hAxis_title :: string
  hAxis_format :: string
  vAxis_title :: string
  pointSize :: nat
  lineWidth :: nat
  trendlines :: "(nat \<times> trendline) list"

record chart =
  features :: "annual_feature list"
  xProperty :: string
  yProperties :: "string list"
  chartType :: string
  options :: chart_options

text \<open>The en dash of the chart title, in UTF-8.\<close>

definition en_dash :: string where
  "en_dash = [CHR 0xE2, CHR 0x80, CHR 0x93]"

definition drawAnnualLineChart ::
  "globals \<Rightarrow> image_collection \<Rightarrow> string \<Rightarrow> string \<Rightarrow> string \<Rightarrow> string \<Rightarrow> string \<Rightarrow> chart" where
  "drawAnnualLineChart G ic band method title yLabel trendColor =
     (let fc = annualSeries G ic band method (var_AOI G) (nativeScale (user G))
      in \<lparr>features = fc, xProperty = ''year'', yProperties = [''value''],
          chartType = ''LineChart'',
          options = \<lparr>opt_title = title @ '' ('' @ ToString (JNum (START_YEAR (user G))) @ en_dash
                               @ ToString (JNum (END_YEAR (user G))) @ '')'',
                     hAxis_title = ''Year'', hAxis_format = ''####'',
                     vAxis_title = yLabel, pointSize = 3, lineWidth = 2,
                     trendlines = [(0, \<lparr>tl_type = ''linear'', tl_color = trendColor,
                                         tl_lineWidth = 3, showR2 = True,
                                         visibleInLegend = True\<rparr>)]\<rparr>\<rparr>)"

subsection \<open>The specification's words and example inputs\<close>

text \<open>
  The format \<open>{month:02d}\<close> of the file name scheme: the decimal number, padded with
  zeros on the left to a width of two.
\<close>

definition spec_month_02d :: "int \<Rightarrow> string" where
  "spec_month_02d m = replicate (2 - length (int_to_str m)) CHR ''0'' @ int_to_str m"

text \<open>A raw image with constant bands, for the examples.\<close>

definition ex_raw_image :: ee_image where
  "ex_raw_image =
     \<lparr>bands = [(''total_precipitation'', \<lambda>p. Some 0.001),
               (''mean_2m_air_temperature'', \<lambda>p. Some 273.15),
               (''minimum_2m_air_temperature'', \<lambda>p. Some 270),
               (''maximum_2m_air_temperature'', \<lambda>p. Some 280),
               (''u_component_of_wind_10m'', \<lambda>p. Some 2.5),
               (''v_component_of_wind_10m'', \<lambda>p. None)],
      props = [''system:time_start'' \<mapsto> EDate 2000 1, ''system:index'' \<mapsto> EStr ''200001'']\<rparr>"

text \<open>
  The annual series in the specification's words: the images of the series whose
  timestamp's calendar year is \<open>y\<close>; their pixel-wise sum or mean over the months present;
  the areal mean over the pixels of the AOI that have a value, null when none has.
\<close>

datatype spec_method = Method_sum | Method_mean

definition spec_year_images :: "image_collection \<Rightarrow> int \<Rightarrow> image_collection" where
  "spec_year_images series y =
     filter (\<lambda>img. case props img ''system:time_start'' of
                      Some (EDate y' m) \<Rightarrow> y' = y
                    | _ \<Rightarrow> False) series"

definition spec_temporal :: "spec_method \<Rightarrow> image_collection \<Rightarrow> string \<Rightarrow> raster" where
  "spec_temporal method imgs band p =
     (let vs = List.map_filter (\<lambda>img. band_value img band p) imgs
      in if vs = [] then None
         else Some (case method of
                      Method_sum \<Rightarrow> sum_list vs
                    | Method_mean \<Rightarrow> sum_list vs / real (length vs)))"

definition spec_areal_mean :: "raster \<Rightarrow> geometry \<Rightarrow> real option" where
  "spec_areal_mean field aoi =
     (let vs = List.map_filter field aoi
      in if vs = [] then None else Some (sum_list vs / real (length vs)))"

definition spec_annual_value ::
  "spec_method \<Rightarrow> image_collection \<Rightarrow> string \<Rightarrow> geometry \<Rightarrow> int \<Rightarrow> real option" where
  "spec_annual_value method series band aoi y =
     spec_areal_mean (spec_temporal method (spec_year_images series y) band) aoi"

text \<open>Example inputs: images with one constant band, and a configuration for 2000 to 2002.\<close>

definition ex_image :: "string \<Rightarrow> int \<Rightarrow> int \<Rightarrow> real \<Rightarrow> ee_image" where
  "ex_image b y m v =
     \<lparr>bands = [(b, \<lambda>p. Some v)], props = [''system:time_start'' \<mapsto> EDate y m]\<rparr>"

definition ex_globals :: globals where
  "ex_globals =
     \<lparr>user = \<lparr>AOI_ASSET_ID = ''projects/ee-franklinparedes75/assets/Cojedes_Guarico'',
               START_YEAR = 2000, END_YEAR = 2002, AVERAGING_METRIC = Prim (JStr ''mean''),
               DRIVE_FOLDER = ''EE_ERA5_Monthly'', nativeScale = 5000, MAP_ZOOM = 6\<rparr>,
      var_AOI = [3, 4, 5], var_metric = ''mean''\<rparr>"

definition ex_year_10mm :: "int \<Rightarrow> image_collection" where
  "ex_year_10mm y = map (\<lambda>m. ex_image ''tp_mm'' y m 10) [1, 2, 3, 4, 5, 6, 7, 8, 9, 10, 11, 12]"

definition ex_series_10mm :: image_collection where
  "ex_series_10mm = ex_year_10mm 2000 @ ex_year_10mm 2001 @ ex_year_10mm 2002"

definition ex_series_two :: image_collection where
  "ex_series_two = [ex_image ''tp_mm'' 2000 1 10, ex_image ''tp_mm'' 2000 2 20]"

text \<open>The configuration of the specification's file name example.\<close>

definition ex_params_1990 :: params where
  "ex_params_1990 =
     \<lparr>AOI_ASSET_ID = ''projects/ee-franklinparedes75/assets/Cojedes_Guarico'',
      START_YEAR = 1990, END_YEAR = 2020, AVERAGING_METRIC = Prim (JStr ''mean''),
      DRIVE_FOLDER = ''EE_ERA5_Monthly'', nativeScale = 5000, MAP_ZOOM = 6\<rparr>"





text \<open>Example asset stores: an asset with no feature, and one with two overlapping features.\<close>

definition empty_store :: asset_store where
  "empty_store assetId = []"

definition ex_store :: asset_store where
  "ex_store assetId = [[3, 4], [4, 5]]"

text \<open>Example series of annual temperatures 1, 2, 3 and 3, 2, 1 for 2000 to 2002.\<close>

definition ex_series_rising :: image_collection where
  "ex_series_rising =
     [ex_image ''tmean_C'' 2000 1 1, ex_image ''tmean_C'' 2001 1 2, ex_image ''tmean_C'' 2002 1 3]"

definition ex_series_falling :: image_collection where
  "ex_series_falling =
     [ex_image ''tmean_C'' 2000 1 3, ex_image ''tmean_C'' 2001 1 2, ex_image ''tmean_C'' 2002 1 1]"

text \<open>
  The trend line in the specification's words: the least-squares line (slope, intercept)
  through the non-null (year, value) pairs and its coefficient of determination, which
  is 0 for fewer than two pairs.
\<close>

definition spec_regression :: "(real \<times> real) list \<Rightarrow> real \<times> real \<times> real" where
  "spec_regression pts =
     (let n = real (length pts);
          sx = sum_list (map fst pts);
          sy = sum_list (map snd pts);
          sxx = sum_list (map (\<lambda>(x, y). x * x) pts);
          sxy = sum_list (map (\<lambda>(x, y). x * y) pts);
          syy = sum_list (map (\<lambda>(x, y). y * y) pts);
          slope = (n * sxy - sx * sy) / (n * sxx - sx * sx);
          intercept = (sy - slope * sx) / n;
          r2 = (if length pts < 2 then 0
                else (n * sxy - sx * sy) * (n * sxy - sx * sy)
                       / ((n * sxx - sx * sx) * (n * syy - sy * sy)))
      in (slope, intercept, r2))"

definition spec_trend :: "annual_feature list \<Rightarrow> real \<times> real \<times> real" where
  "spec_trend fs =
     spec_regression
       (List.map_filter (\<lambda>f. map_option (\<lambda>v. (real_of_int (year f), v)) (value f)) fs)"

section \<open>Properties\<close>

subsection \<open>Decimal strings\<close>

lemma nat_to_str_small: "n < 10 \<Longrightarrow> nat_to_str n = [digit_char n]"
  by (simp add: nat_to_str.simps)

lemma nat_to_str_nonempty: "nat_to_str n \<noteq> []"
  by (subst nat_to_str.simps) simp

lemma length_nat_to_str_large: "10 \<le> n \<Longrightarrow> 2 \<le> length (nat_to_str n)"
proof -
  assume "10 \<le> n"
  then have "nat_to_str n = nat_to_str (n div 10) @ [digit_char (n mod 10)]"
    by (subst nat_to_str.simps) simp
  moreover have "1 \<le> length (nat_to_str (n div 10))"
    using nat_to_str_nonempty [of "n div 10"] by (cases "nat_to_str (n div 10)") auto
  ultimately show ?thesis by simp
qed


lemma pad2_spec: "0 \<le> m \<Longrightarrow> pad2 m = spec_month_02d m"
proof (cases "m < 10")
  case True
  assume "0 \<le> m"
  with True have "nat m < 10" by simp
  then have "length (nat_to_str (nat m)) = 1" by (simp add: nat_to_str_small)
  with True \<open>0 \<le> m\<close> show ?thesis
    by (simp add: pad2_def spec_month_02d_def int_to_str_def)
next
  case False
  assume "0 \<le> m"
  with False have "10 \<le> nat m" by simp
  then have "2 \<le> length (nat_to_str (nat m))" by (rule length_nat_to_str_large)
  with False \<open>0 \<le> m\<close> show ?thesis
    by (simp add: pad2_def spec_month_02d_def int_to_str_def)
qed

subsection \<open>Export file names\<close>

lemma export_loop_eq:
  "export_loop G monthlyIC band varLabel m = map (export_month G monthlyIC band varLabel) [m..12]"
proof (induction G monthlyIC band varLabel m rule: export_loop.induct)
  case (1 G monthlyIC band varLabel m)
  show ?case
  proof (cases "m \<le> 12")
    case True
    then have "[m..12] = m # [m + 1..12]" by (simp add: upto_rec1)
    with True 1 show ?thesis by (subst export_loop.simps) simp
  next
    case False
    then show ?thesis by (subst export_loop.simps) simp
  qed
qed

lemma exportMonthlyRasters_eq:
  "exportMonthlyRasters G monthlyIC band varLabel =
     map (export_month G monthlyIC band varLabel) [1..12]"
  by (simp add: exportMonthlyRasters_def export_loop_eq)

lemma fileBase_eq:
  "fileNamePrefix (export_month G monthlyIC band varLabel m) =
     ''ERA5_'' @ varLabel @ ''_'' @ var_metric G @ ''_'' @ int_to_str (START_YEAR (user G))
       @ ''-'' @ int_to_str (END_YEAR (user G)) @ ''_M'' @ pad2 m"
  by (simp add: export_month_def js_join_def Let_def)

text \<open>
  Claim C2. The loop of \<^verbatim>\<open>exportMonthlyRasters\<close> creates twelve export tasks, and for
  every month \<open>m\<close> from 1 to 12 the file name prefix (and the description) of the task of
  month \<open>m\<close> is \<open>ERA5_\<close>, the variable label, \<open>_\<close>, the metric, \<open>_\<close>, the start year,
  \<open>-\<close>, the end year, \<open>_M\<close> and the month zero-padded to two digits.
\<close>

theorem exportMonthlyRasters_fileId:
  assumes "1 \<le> m" and "m \<le> 12"
  shows "length (exportMonthlyRasters G monthlyIC band varLabel) = 12
    \<and> fileNamePrefix (exportMonthlyRasters G monthlyIC band varLabel ! nat (m - 1)) =
      ''ERA5_'' @ varLabel @ ''_'' @ var_metric G @ ''_'' @ int_to_str (START_YEAR (user G))
        @ ''-'' @ int_to_str (END_YEAR (user G)) @ ''_M'' @ spec_month_02d m
    \<and> description (exportMonthlyRasters G monthlyIC band varLabel ! nat (m - 1)) =
      fileNamePrefix (exportMonthlyRasters G monthlyIC band varLabel ! nat (m - 1))"
proof -
  have len: "length (exportMonthlyRasters G monthlyIC band varLabel) = 12"
    by (simp add: exportMonthlyRasters_eq)
  have idx: "[1..12] ! nat (m - 1) = m"
    using assms by simp
  have nth: "exportMonthlyRasters G monthlyIC band varLabel ! nat (m - 1)
      = export_month G monthlyIC band varLabel m"
    using assms idx by (simp add: exportMonthlyRasters_eq)
  have pad: "pad2 m = spec_month_02d m" using assms by (simp add: pad2_spec)
  have d: "description (export_month G monthlyIC band varLabel m)
     = fileNamePrefix (export_month G monthlyIC band varLabel m)"
    by (simp add: export_month_def Let_def)
  show ?thesis using len nth pad d by (simp add: fileBase_eq)
qed

text \<open>
  The example of the specification: label \<open>TPmm\<close>, metric \<open>mean\<close>, years 1990 to 2020,
  month 3.
\<close>

theorem exportMonthlyRasters_fileId_witness:
  "(1::int) \<le> 3 \<and> (3::int) \<le> 12
   \<and> script_globals ex_store ex_params_1990
       = Inr \<lparr>user = ex_params_1990, var_AOI = [3, 4, 5], var_metric = ''mean''\<rparr>
   \<and> fileNamePrefix (exportMonthlyRasters
         \<lparr>user = ex_params_1990, var_AOI = [3, 4, 5], var_metric = ''mean''\<rparr>
         [] ''tp_mm'' ''TPmm'' ! nat (3 - 1))
     = ''ERA5_TPmm_mean_1990-2020_M03''"
proof -
  have g: "script_globals ex_store ex_params_1990
       = Inr \<lparr>user = ex_params_1990, var_AOI = [3, 4, 5], var_metric = ''mean''\<rparr>"
    by (simp add: script_globals_def loadAOIGeometry_def ee_FeatureCollection_def
          ee_fc_geometry_def ex_store_def ex_params_1990_def getClimMetric_def
          toLowerCase_def lower_char_def)
  show ?thesis
    using exportMonthlyRasters_fileId [of 3
        "\<lparr>user = ex_params_1990, var_AOI = [3, 4, 5], var_metric = ''mean''\<rparr>"
        "[]" "''tp_mm''" "''TPmm''"] g
    by (simp add: spec_month_02d_def int_to_str_def nat_to_str.simps digit_char_def
          ex_params_1990_def)
qed

subsection \<open>The climatology metric\<close>









subsection \<open>Monthly climatology\<close>

lemma props_ee_set: "props (ee_set k v img) = (props img)(k \<mapsto> v)"
  by (simp add: ee_set_def)

text \<open>
  Claim C3. For every series, band and metric, \<^verbatim>\<open>monthlyClimatology\<close> returns twelve
  composites; read in order, their \<open>month\<close> tags are 1, 2, ..., 12 (each month once,
  ascending), and every composite carries the given band and metric as its \<open>band\<close> and
  \<open>metric\<close> tags.
\<close>

theorem monthlyClimatology_twelve_tagged:
  "length (monthlyClimatology ic band metric) = 12
   \<and> map (\<lambda>img. props img ''month'') (monthlyClimatology ic band metric)
       = map (\<lambda>m. Some (ENum (real_of_int m))) [1, 2, 3, 4, 5, 6, 7, 8, 9, 10, 11, 12]
   \<and> map (\<lambda>img. (props img ''band'', props img ''metric'')) (monthlyClimatology ic band metric)
       = replicate 12 (Some (EStr band), Some (EStr metric))"
proof -
  have m: "[1..12] = [1, 2, 3, 4, 5, 6, 7, 8, 9, 10, 11, (12::int)]"
    by (simp add: upto_rec1)
  show ?thesis
    unfolding monthlyClimatology_def Let_def m
    by (simp add: props_ee_set eval_nat_numeral)
qed

subsection \<open>Unit conversion\<close>

lemma bands_ee_select_one:
  "bands (ee_select [b] img) = (case map_of (bands img) b of None \<Rightarrow> [] | Some r \<Rightarrow> [(b, r)])"
  by (simp add: ee_select_def List.map_filter_def split: option.splits)

lemma bands_select_rename:
  "bands (ee_rename [new] (ee_select [old] img)) =
     (case map_of (bands img) old of None \<Rightarrow> [] | Some r \<Rightarrow> [(new, r)])"
  by (simp add: ee_rename_def bands_ee_select_one split: option.splits)

lemma bands_select_multiply_rename:
  "bands (ee_rename [new] (ee_multiply c (ee_select [old] img))) =
     (case map_of (bands img) old of None \<Rightarrow> []
      | Some r \<Rightarrow> [(new, \<lambda>p. map_option (\<lambda>v. v * c) (r p))])"
  by (simp add: ee_rename_def ee_multiply_def bands_ee_select_one split: option.splits)

lemma bands_select_subtract_rename:
  "bands (ee_rename [new] (ee_subtract c (ee_select [old] img))) =
     (case map_of (bands img) old of None \<Rightarrow> []
      | Some r \<Rightarrow> [(new, \<lambda>p. map_option (\<lambda>v. v - c) (r p))])"
  by (simp add: ee_rename_def ee_subtract_def bands_ee_select_one split: option.splits)

lemma map_of_piece:
  "map_of ((case x of None \<Rightarrow> [] | Some r \<Rightarrow> [(new, g r)]) @ rest) k =
     (if k = new \<and> x \<noteq> None then map_option g x else map_of rest k)"
  by (cases x) auto

lemma bands_ERA5x_image:
  "bands (ERA5x_image img) =
     (case map_of (bands img) ''total_precipitation'' of None \<Rightarrow> []
        | Some r \<Rightarrow> [(''tp_mm'', (\<lambda>r p. map_option (\<lambda>v. v * 1000) (r p)) r)])
     @ (case map_of (bands img) ''mean_2m_air_temperature'' of None \<Rightarrow> []
        | Some r \<Rightarrow> [(''tmean_C'', (\<lambda>r p. map_option (\<lambda>v. v - 273.15) (r p)) r)])
     @ (case map_of (bands img) ''minimum_2m_air_temperature'' of None \<Rightarrow> []
        | Some r \<Rightarrow> [(''tmin_C'', (\<lambda>r p. map_option (\<lambda>v. v - 273.15) (r p)) r)])
     @ (case map_of (bands img) ''maximum_2m_air_temperature'' of None \<Rightarrow> []
        | Some r \<Rightarrow> [(''tmax_C'', (\<lambda>r p. map_option (\<lambda>v. v - 273.15) (r p)) r)])
     @ (case map_of (bands img) ''u_component_of_wind_10m'' of None \<Rightarrow> []
        | Some r \<Rightarrow> [(''u10'', (\<lambda>r. r) r)])
     @ (case map_of (bands img) ''v_component_of_wind_10m'' of None \<Rightarrow> []
        | Some r \<Rightarrow> [(''v10'', (\<lambda>r. r) r)]) @ []"
  unfolding ERA5x_image_def Let_def
  by (simp add: ee_copyProperties_def ee_Image_cat_def bands_select_rename
        bands_select_multiply_rename bands_select_subtract_rename split: option.splits)

lemma band_value_alt:
  "band_value img b p = (case map_of (bands img) b of None \<Rightarrow> None | Some r \<Rightarrow> r p)"
  by (simp add: band_value_def)

text \<open>
  Claim C5. For every image and pixel, the converted image has the precipitation sample
  times 1000 as \<open>tp_mm\<close>, each of the three temperature samples minus 273.15 as
  \<open>tmean_C\<close>, \<open>tmin_C\<close> and \<open>tmax_C\<close>, and the two wind samples unchanged as
  \<open>u10\<close> and \<open>v10\<close>. A sample that is absent in the input is absent in the output.
\<close>

theorem ERA5x_image_units:
  "band_value (ERA5x_image img) ''tp_mm'' p =
      map_option (\<lambda>v. v * 1000) (band_value img ''total_precipitation'' p)
   \<and> band_value (ERA5x_image img) ''tmean_C'' p =
      map_option (\<lambda>v. v - 273.15) (band_value img ''mean_2m_air_temperature'' p)
   \<and> band_value (ERA5x_image img) ''tmin_C'' p =
      map_option (\<lambda>v. v - 273.15) (band_value img ''minimum_2m_air_temperature'' p)
   \<and> band_value (ERA5x_image img) ''tmax_C'' p =
      map_option (\<lambda>v. v - 273.15) (band_value img ''maximum_2m_air_temperature'' p)
   \<and> band_value (ERA5x_image img) ''u10'' p = band_value img ''u_component_of_wind_10m'' p
   \<and> band_value (ERA5x_image img) ''v10'' p = band_value img ''v_component_of_wind_10m'' p"
proof -
  have tp: "band_value (ERA5x_image img) ''tp_mm'' p =
      map_option (\<lambda>v. v * 1000) (band_value img ''total_precipitation'' p)"
    unfolding band_value_alt bands_ERA5x_image map_of_piece by (simp split: option.splits)
  have tmean: "band_value (ERA5x_image img) ''tmean_C'' p =
      map_option (\<lambda>v. v - 273.15) (band_value img ''mean_2m_air_temperature'' p)"
    unfolding band_value_alt bands_ERA5x_image map_of_piece by (simp split: option.splits)
  have tmin: "band_value (ERA5x_image img) ''tmin_C'' p =
      map_option (\<lambda>v. v - 273.15) (band_value img ''minimum_2m_air_temperature'' p)"
    unfolding band_value_alt bands_ERA5x_image map_of_piece by (simp split: option.splits)
  have tmax: "band_value (ERA5x_image img) ''tmax_C'' p =
      map_option (\<lambda>v. v - 273.15) (band_value img ''maximum_2m_air_temperature'' p)"
    unfolding band_value_alt bands_ERA5x_image map_of_piece by (simp split: option.splits)
  have u: "band_value (ERA5x_image img) ''u10'' p = band_value img ''u_component_of_wind_10m'' p"
    unfolding band_value_alt bands_ERA5x_image map_of_piece by (simp split: option.splits)
  have v: "band_value (ERA5x_image img) ''v10'' p = band_value img ''v_component_of_wind_10m'' p"
    unfolding band_value_alt bands_ERA5x_image map_of_piece by (simp split: option.splits)
  from tp tmean tmin tmax u v show ?thesis by (intro conjI)
qed

text \<open>
  The example of the specification: precipitation 0.001 m gives 1 mm, and a temperature
  of 273.15 K gives 0 degrees Celsius; a wind component of 2.5 stays 2.5.
\<close>

theorem ERA5x_image_units_example:
  "band_value (ERA5x_image ex_raw_image) ''tp_mm'' 0 = Some 1
   \<and> band_value (ERA5x_image ex_raw_image) ''tmean_C'' 0 = Some 0
   \<and> band_value (ERA5x_image ex_raw_image) ''u10'' 0 = Some 2.5"
  using ERA5x_image_units [of ex_raw_image 0]
  by (simp add: ex_raw_image_def band_value_def)

subsection \<open>Timestamps of the converted series\<close>

lemma time_start_ERA5x_image:
  "props (ERA5x_image img) ''system:time_start'' = props img ''system:time_start''"
  unfolding ERA5x_image_def Let_def
  by (simp add: ee_copyProperties_def ee_Image_cat_def split: option.splits)

lemma calendarRange_ERA5x_image:
  "ee_Filter_calendarRange lo hi field (ERA5x_image img) = ee_Filter_calendarRange lo hi field img"
  by (simp add: ee_Filter_calendarRange_def time_start_ERA5x_image)

text \<open>
  Claim C8. The converted image has the acquisition timestamp of the input image, so
  filtering the converted series by calendar month or calendar year selects the
  conversions of exactly the raw images that the same filter selects. The conversion is
  a function from the input image to a new image: the input is a value and stays as it
  is.
\<close>

theorem ERA5x_keeps_time_start:
  "props (ERA5x_image img) ''system:time_start'' = props img ''system:time_start''
   \<and> map (\<lambda>i. props i ''system:time_start'') (ERA5x ERA5)
       = map (\<lambda>i. props i ''system:time_start'') ERA5
   \<and> filter (ee_Filter_calendarRange lo hi field) (ERA5x ERA5)
       = ERA5x (filter (ee_Filter_calendarRange lo hi field) ERA5)"
proof -
  have a: "map (\<lambda>i. props i ''system:time_start'') (ERA5x ERA5)
       = map (\<lambda>i. props i ''system:time_start'') ERA5"
    by (simp add: ERA5x_def time_start_ERA5x_image)
  have b: "filter (ee_Filter_calendarRange lo hi field) (ERA5x ERA5)
       = ERA5x (filter (ee_Filter_calendarRange lo hi field) ERA5)"
    by (simp add: ERA5x_def filter_map comp_def calendarRange_ERA5x_image)
  from time_start_ERA5x_image a b show ?thesis by (intro conjI)
qed

subsection \<open>Annual series\<close>

lemma year_filter_spec:
  "filter (ee_Filter_calendarRange y y ''year'') ic = spec_year_images ic y"
proof -
  have "ee_Filter_calendarRange y y ''year'' =
        (\<lambda>img. case props img ''system:time_start'' of
                      Some (EDate y' m) \<Rightarrow> y' = y
                    | _ \<Rightarrow> False)"
    by (auto simp: fun_eq_iff ee_Filter_calendarRange_def split: option.splits eeval.splits)
  then show ?thesis by (simp add: spec_year_images_def)
qed

lemma nonempty_single: "set xs \<subseteq> {b} \<Longrightarrow> xs \<noteq> [] \<Longrightarrow> b \<in> set xs"
  by (cases xs) auto

lemma remdups_single: "set xs \<subseteq> {b} \<Longrightarrow> remdups xs = (if xs = [] then [] else [b])"
proof (induction xs)
  case Nil
  then show ?case by simp
next
  case (Cons x xs)
  then have x: "x = b" and sub: "set xs \<subseteq> {b}" by auto
  show ?case
  proof (cases "xs = []")
    case True
    with x show ?thesis by simp
  next
    case False
    have "b \<in> set xs" using sub False by (rule nonempty_single)
    with Cons.IH [OF sub] False x show ?thesis by simp
  qed
qed

lemma band_value_select: "band_value (ee_select [b] img) b p = band_value img b p"
  by (simp add: band_value_def bands_ee_select_one split: option.splits)

lemma map_filter_select:
  "List.map_filter (\<lambda>img. band_value img b p) (map (ee_select [b]) imgs)
     = List.map_filter (\<lambda>img. band_value img b p) imgs"
  by (simp add: List.map_filter_def filter_map comp_def band_value_select)

lemma names_select:
  "set (concat (map (\<lambda>img. map fst (bands img)) (map (ee_select [b]) imgs))) \<subseteq> {b}"
  by (auto simp: bands_ee_select_one split: option.splits)

lemma no_names_no_values:
  assumes "concat (map (\<lambda>img. map fst (bands img)) (map (ee_select [b]) imgs)) = []"
  shows "List.map_filter (\<lambda>img. band_value img b p) imgs = []"
proof -
  have "band_value img b p = None" if "img \<in> set imgs" for img
  proof -
    from assms that have "bands (ee_select [b] img) = []" by auto
    then show ?thesis
      by (simp add: band_value_def bands_ee_select_one split: option.splits)
  qed
  then show ?thesis by (simp add: List.map_filter_def filter_empty_conv)
qed

lemma reduceRegion_reduce_select:
  "ee_reduceRegion args (ee_rename [b] (ee_reduce f (map (ee_select [b]) imgs))) b
     = areal_mean (\<lambda>p. let vs = List.map_filter (\<lambda>img. band_value img b p) imgs
                        in if vs = [] then None else Some (f vs)) (rr_geometry args)"
proof (cases "concat (map (\<lambda>img. map fst (bands img)) (map (ee_select [b]) imgs)) = []")
  case True
  then have "bands (ee_rename [b] (ee_reduce f (map (ee_select [b]) imgs))) = []"
    by (simp add: ee_rename_def ee_reduce_def)
  moreover have "List.map_filter (\<lambda>img. band_value img b p) imgs = []" for p
    using True by (rule no_names_no_values)
  ultimately show ?thesis
    by (simp add: ee_reduceRegion_def areal_mean_def List.map_filter_def)
next
  case False
  with names_select [of b imgs]
  have "remdups (concat (map (\<lambda>img. map fst (bands img)) (map (ee_select [b]) imgs))) = [b]"
    by (simp add: remdups_single)
  then have "bands (ee_rename [b] (ee_reduce f (map (ee_select [b]) imgs))) =
     [(b, \<lambda>p. let vs = List.map_filter (\<lambda>img. band_value img b p) imgs
                        in if vs = [] then None else Some (f vs))]"
    by (simp add: ee_rename_def ee_reduce_def map_filter_select)
  then show ?thesis by (simp add: ee_reduceRegion_def)
qed

lemma areal_mean_spec: "areal_mean r g = spec_areal_mean r g"
  by (simp add: areal_mean_def spec_areal_mean_def mean_list_def Let_def)

lemma reduceRegion_sum:
  "ee_reduceRegion args (ee_rename [b] (ee_sum (map (ee_select [b]) imgs))) b
     = spec_areal_mean (spec_temporal Method_sum imgs b) (rr_geometry args)"
proof -
  have "(\<lambda>p. let vs = List.map_filter (\<lambda>img. band_value img b p) imgs
              in if vs = [] then None else Some (sum_list vs)) = spec_temporal Method_sum imgs b"
    by (auto simp: fun_eq_iff spec_temporal_def Let_def)
  then show ?thesis
    by (simp add: ee_sum_def reduceRegion_reduce_select areal_mean_spec)
qed

lemma reduceRegion_mean:
  "ee_reduceRegion args (ee_rename [b] (ee_mean (map (ee_select [b]) imgs))) b
     = spec_areal_mean (spec_temporal Method_mean imgs b) (rr_geometry args)"
proof -
  have "(\<lambda>p. let vs = List.map_filter (\<lambda>img. band_value img b p) imgs
              in if vs = [] then None else Some (mean_list vs)) = spec_temporal Method_mean imgs b"
    by (auto simp: fun_eq_iff spec_temporal_def Let_def mean_list_def)
  then show ?thesis
    by (simp add: ee_mean_def reduceRegion_reduce_select areal_mean_spec)
qed

lemma annualSeries_spec:
  "annualSeries G ic band method region scale =
     map (\<lambda>y. \<lparr>year = y,
               value = spec_annual_value (if method = ''sum'' then Method_sum else Method_mean)
                         ic band region y\<rparr>)
       [START_YEAR (user G) .. END_YEAR (user G)]"
  unfolding annualSeries_def Let_def year_filter_spec
  by (simp add: reduceRegion_sum reduceRegion_mean spec_annual_value_def)


lemma upto_2000_2002: "[2000..2002] = [2000, 2001, (2002::int)]"
  by (simp add: upto_rec1)

lemma spec_year_images_Cons:
  "spec_year_images (ex_image b y' m v # ic) y =
     (if y' = y then ex_image b y' m v # spec_year_images ic y else spec_year_images ic y)"
  by (simp add: spec_year_images_def ex_image_def)

lemma spec_year_images_Nil: "spec_year_images [] y = []"
  by (simp add: spec_year_images_def)

lemma band_value_ex_image: "band_value (ex_image b y m v) b p = Some v"
  by (simp add: band_value_def ex_image_def)

text \<open>
  Claim C4. \<^verbatim>\<open>annualSeries\<close> returns one feature per year from \<^verbatim>\<open>START_YEAR\<close> to
  \<^verbatim>\<open>END_YEAR\<close> inclusive, in ascending order, and the value of the year \<open>y\<close> is the
  areal mean over the region of the pixel-wise sum (method \<open>sum\<close>) or mean (method
  \<open>mean\<close>) of the band over the images of the year \<open>y\<close>.
\<close>

theorem annualSeries_years_values:
  "map year (annualSeries G ic band method region scale)
     = [START_YEAR (user G) .. END_YEAR (user G)]
   \<and> map value (annualSeries G ic band ''sum'' region scale)
     = map (spec_annual_value Method_sum ic band region) [START_YEAR (user G) .. END_YEAR (user G)]
   \<and> map value (annualSeries G ic band ''mean'' region scale)
     = map (spec_annual_value Method_mean ic band region) [START_YEAR (user G) .. END_YEAR (user G)]"
  by (simp add: annualSeries_spec comp_def)

text \<open>
  The example of the specification: three full years of a constant 10 mm every month give
  the annual total 120 for each year.
\<close>

theorem annualSeries_years_values_example:
  "map year (annualSeries ex_globals ex_series_10mm ''tp_mm'' ''sum'' [3, 4, 5] 5000)
     = [2000, 2001, 2002]
   \<and> map value (annualSeries ex_globals ex_series_10mm ''tp_mm'' ''sum'' [3, 4, 5] 5000)
     = [Some 120, Some 120, Some 120]"
proof -
  have v: "spec_annual_value Method_sum ex_series_10mm ''tp_mm'' [3, 4, 5] y = Some 120"
    if "y = 2000 \<or> y = 2001 \<or> y = 2002" for y
    using that
    by (auto simp: spec_annual_value_def spec_areal_mean_def spec_temporal_def
        ex_series_10mm_def ex_year_10mm_def spec_year_images_Cons spec_year_images_Nil
        band_value_ex_image)
  have g: "START_YEAR (user ex_globals) = 2000" "END_YEAR (user ex_globals) = 2002"
    by (simp_all add: ex_globals_def)
  show ?thesis
    using annualSeries_years_values [of ex_globals ex_series_10mm "''tp_mm''" "''sum''" "[3, 4, 5]" 5000]
    by (simp add: g upto_2000_2002 v)
qed

text \<open>
  Claim C10. \<^verbatim>\<open>annualSeries\<close> reduces each year with the pixel-wise sum when the
  method is the string \<open>sum\<close>, and with the pixel-wise mean for every other method;
  no method is rejected.
\<close>

theorem annualSeries_method:
  "(method = ''sum'' \<longrightarrow>
      annualSeries G ic band method region scale =
        map (\<lambda>y. \<lparr>year = y, value = spec_annual_value Method_sum ic band region y\<rparr>)
          [START_YEAR (user G) .. END_YEAR (user G)])
   \<and> (method \<noteq> ''sum'' \<longrightarrow>
      annualSeries G ic band method region scale =
        map (\<lambda>y. \<lparr>year = y, value = spec_annual_value Method_mean ic band region y\<rparr>)
          [START_YEAR (user G) .. END_YEAR (user G)])"
  by (simp add: annualSeries_spec)

text \<open>
  A year with the two samples 10 and 20: \<open>sum\<close> gives 30; \<open>mean\<close>, \<open>median\<close> and the
  misspelling \<open>Sum\<close> give 15.
\<close>

theorem annualSeries_method_witness:
  "map value (annualSeries ex_globals ex_series_two ''tp_mm'' ''sum'' [0] 5000)
     = [Some 30, None, None]
   \<and> map value (annualSeries ex_globals ex_series_two ''tp_mm'' ''mean'' [0] 5000)
     = [Some 15, None, None]
   \<and> map value (annualSeries ex_globals ex_series_two ''tp_mm'' ''median'' [0] 5000)
     = [Some 15, None, None]
   \<and> map value (annualSeries ex_globals ex_series_two ''tp_mm'' ''Sum'' [0] 5000)
     = [Some 15, None, None]"
proof -
  have g: "START_YEAR (user ex_globals) = 2000" "END_YEAR (user ex_globals) = 2002"
    by (simp_all add: ex_globals_def)
  have s: "spec_annual_value Method_sum ex_series_two ''tp_mm'' [0] 2000 = Some 30"
    "spec_annual_value Method_sum ex_series_two ''tp_mm'' [0] 2001 = None"
    "spec_annual_value Method_sum ex_series_two ''tp_mm'' [0] 2002 = None"
    by (simp_all add: spec_annual_value_def spec_areal_mean_def spec_temporal_def
        ex_series_two_def spec_year_images_Cons spec_year_images_Nil
        band_value_ex_image)
  have m: "spec_annual_value Method_mean ex_series_two ''tp_mm'' [0] 2000 = Some 15"
    "spec_annual_value Method_mean ex_series_two ''tp_mm'' [0] 2001 = None"
    "spec_annual_value Method_mean ex_series_two ''tp_mm'' [0] 2002 = None"
    by (simp_all add: spec_annual_value_def spec_areal_mean_def spec_temporal_def
        ex_series_two_def spec_year_images_Cons spec_year_images_Nil
        band_value_ex_image)
  show ?thesis
    using annualSeries_method [of "''sum''" ex_globals ex_series_two "''tp_mm''" "[0]" 5000]
      annualSeries_method [of "''mean''" ex_globals ex_series_two "''tp_mm''" "[0]" 5000]
      annualSeries_method [of "''median''" ex_globals ex_series_two "''tp_mm''" "[0]" 5000]
      annualSeries_method [of "''Sum''" ex_globals ex_series_two "''tp_mm''" "[0]" 5000]
    by (simp add: g upto_2000_2002 s m)
qed

subsection \<open>AOI resolution\<close>

text \<open>
  Claim C1, as the script has it: \<^verbatim>\<open>loadAOIGeometry\<close> fails for no asset reference. It
  returns one geometry without repeated pixels that covers exactly the union of the
  geometries of the asset's features; for an asset without geometries that is the empty
  geometry.
\<close>

theorem loadAOIGeometry_union:
  "\<exists>g. loadAOIGeometry store assetId = Inr g \<and> distinct g
       \<and> set g = \<Union> (set ` set (store assetId))"
  by (simp add: loadAOIGeometry_def ee_FeatureCollection_def ee_fc_geometry_def)

text \<open>Two overlapping features give the geometry that covers the pixels of both.\<close>

theorem loadAOIGeometry_union_example:
  "\<exists>g. loadAOIGeometry ex_store ''projects/ee-franklinparedes75/assets/Cojedes_Guarico'' = Inr g
       \<and> set g = {3, 4, 5}"
  using loadAOIGeometry_union [of ex_store "''projects/ee-franklinparedes75/assets/Cojedes_Guarico''"]
  by (auto simp: ex_store_def)

text \<open>
  Claim C1, as stated, fails: for an asset that resolves to zero geometries the result is
  the empty geometry, not \<open>InvalidAOIError\<close>, and the globals of the script are set up
  with it, so the run goes on to the reductions over the empty AOI.
\<close>

theorem loadAOIGeometry_no_InvalidAOIError:
  "loadAOIGeometry empty_store ''projects/ee-franklinparedes75/assets/Cojedes_Guarico'' = Inr []
   \<and> loadAOIGeometry empty_store ''projects/ee-franklinparedes75/assets/Cojedes_Guarico''
       \<noteq> Inl InvalidAOIError
   \<and> script_globals empty_store (user ex_globals) = Inr (ex_globals\<lparr>var_AOI := []\<rparr>)
   \<and> map value (annualSeries (ex_globals\<lparr>var_AOI := []\<rparr>) ex_series_rising ''tmean_C'' ''mean''
                  (var_AOI (ex_globals\<lparr>var_AOI := []\<rparr>)) 5000) = [None, None, None]"
proof -
  have a: "loadAOIGeometry empty_store ''projects/ee-franklinparedes75/assets/Cojedes_Guarico''
             = Inr []"
    by (simp add: loadAOIGeometry_def ee_FeatureCollection_def ee_fc_geometry_def empty_store_def)
  have b: "script_globals empty_store (user ex_globals) = Inr (ex_globals\<lparr>var_AOI := []\<rparr>)"
    by (simp add: script_globals_def ex_globals_def a getClimMetric_def toLowerCase_def
          lower_char_def)
  have c: "map value (annualSeries (ex_globals\<lparr>var_AOI := []\<rparr>) ex_series_rising ''tmean_C'' ''mean''
                  (var_AOI (ex_globals\<lparr>var_AOI := []\<rparr>)) 5000) = [None, None, None]"
    by (simp add: annualSeries_spec ex_globals_def upto_2000_2002 spec_annual_value_def
          spec_areal_mean_def)
  from a b c show ?thesis by simp
qed

subsection \<open>Annual chart\<close>

text \<open>
  Claim C7, as the script has it: \<^verbatim>\<open>drawAnnualLineChart\<close> hands the annual series
  unmodified to the chart, with the year as x and the value as y, and asks the chart
  library for a linear trend line on series 0 with \<open>showR2\<close> set. The request is the same
  whatever the data.
\<close>

theorem drawAnnualLineChart_trend_request:
  "features (drawAnnualLineChart G ic band method title yLabel trendColor)
     = annualSeries G ic band method (var_AOI G) (nativeScale (user G))
   \<and> xProperty (drawAnnualLineChart G ic band method title yLabel trendColor) = ''year''
   \<and> yProperties (drawAnnualLineChart G ic band method title yLabel trendColor) = [''value'']
   \<and> trendlines (options (drawAnnualLineChart G ic band method title yLabel trendColor))
     = [(0, \<lparr>tl_type = ''linear'', tl_color = trendColor, tl_lineWidth = 3, showR2 = True,
              visibleInLegend = True\<rparr>)]"
  by (simp add: drawAnnualLineChart_def Let_def)

text \<open>
  Claim C7, as stated, fails: for the annual values (2000, 1), (2001, 2), (2002, 3) of the
  specification's example the chart holds these features and the trend line request,
  and nothing else about a trend. The options are the same for the values 3, 2, 1, whose
  regression line (slope -1, intercept 2003) is not that of the example (slope 1,
  intercept -1999): no slope, intercept or coefficient of determination is in the result.
\<close>

theorem drawAnnualLineChart_no_regression:
  "features (drawAnnualLineChart ex_globals ex_series_rising ''tmean_C'' ''mean''
               ''Annual Average Air Temperature'' ''C'' ''#a71930'')
     = [\<lparr>year = 2000, value = Some 1\<rparr>, \<lparr>year = 2001, value = Some 2\<rparr>,
        \<lparr>year = 2002, value = Some 3\<rparr>]
   \<and> trendlines (options (drawAnnualLineChart ex_globals ex_series_rising ''tmean_C'' ''mean''
               ''Annual Average Air Temperature'' ''C'' ''#a71930''))
     = [(0, \<lparr>tl_type = ''linear'', tl_color = ''#a71930'', tl_lineWidth = 3, showR2 = True,
              visibleInLegend = True\<rparr>)]
   \<and> options (drawAnnualLineChart ex_globals ex_series_falling ''tmean_C'' ''mean''
               ''Annual Average Air Temperature'' ''C'' ''#a71930'')
     = options (drawAnnualLineChart ex_globals ex_series_rising ''tmean_C'' ''mean''
               ''Annual Average Air Temperature'' ''C'' ''#a71930'')
   \<and> spec_trend (features (drawAnnualLineChart ex_globals ex_series_rising ''tmean_C'' ''mean''
               ''Annual Average Air Temperature'' ''C'' ''#a71930'')) = (1, - 1999, 1)
   \<and> spec_trend (features (drawAnnualLineChart ex_globals ex_series_falling ''tmean_C'' ''mean''
               ''Annual Average Air Temperature'' ''C'' ''#a71930'')) = (- 1, 2003, 1)"
proof -
  have r: "annualSeries ex_globals ex_series_rising ''tmean_C'' ''mean'' [3, 4, 5] 5000
     = [\<lparr>year = 2000, value = Some 1\<rparr>, \<lparr>year = 2001, value = Some 2\<rparr>,
        \<lparr>year = 2002, value = Some 3\<rparr>]"
    by (simp add: annualSeries_spec ex_globals_def upto_2000_2002 spec_annual_value_def
          spec_areal_mean_def spec_temporal_def ex_series_rising_def spec_year_images_Cons
          spec_year_images_Nil band_value_ex_image)
  have f: "annualSeries ex_globals ex_series_falling ''tmean_C'' ''mean'' [3, 4, 5] 5000
     = [\<lparr>year = 2000, value = Some 3\<rparr>, \<lparr>year = 2001, value = Some 2\<rparr>,
        \<lparr>year = 2002, value = Some 1\<rparr>]"
    by (simp add: annualSeries_spec ex_globals_def upto_2000_2002 spec_annual_value_def
          spec_areal_mean_def spec_temporal_def ex_series_falling_def spec_year_images_Cons
          spec_year_images_Nil band_value_ex_image)
  have g: "var_AOI ex_globals = [3, 4, 5]" "nativeScale (user ex_globals) = 5000"
    by (simp_all add: ex_globals_def)
  have tr: "spec_trend [\<lparr>year = 2000, value = Some 1\<rparr>, \<lparr>year = 2001, value = Some 2\<rparr>,
        \<lparr>year = 2002, value = Some 3\<rparr>] = (1, - 1999, 1)"
    by (simp add: spec_trend_def spec_regression_def)
  have tf: "spec_trend [\<lparr>year = 2000, value = Some 3\<rparr>, \<lparr>year = 2001, value = Some 2\<rparr>,
        \<lparr>year = 2002, value = Some 1\<rparr>] = (- 1, 2003, 1)"
    by (simp add: spec_trend_def spec_regression_def)
  show ?thesis
    by (simp add: drawAnnualLineChart_def Let_def g r f tr tf)
qed

subsection \<open>The metric and the reducer of the climatology\<close>













end
